theory Spec2Isabelle
  imports Complex_Main "HOL-Library.AList" "HOL-Library.Sublist"
begin

section \<open>Values, payloads and exceptions\<close>

text \<open>
  The client of \<^verbatim>\<open>fedora/client/pkgdb.py\<close> exchanges JSON-like Python values with the
  server. A Python float is a finite rational or one of the three non-finite values that
  \<^verbatim>\<open>simplejson\<close> accepts.
\<close>

datatype pyfloat = Finite rat | PosInf | NegInf | NaN

datatype pyval =
    PNone
  | PBool bool
  | PInt int
  | PFloat pyfloat
  | PStr string
  | PList "pyval list"
  | PDict "(string \<times> pyval) list"

text \<open>A dictionary with string keys: a response payload or the parameters of a request.\<close>

type_synonym pydict = "(string \<times> pyval) list"

text \<open>Python's truth value of an object, as tested by \<^verbatim>\<open>if x:\<close> and \<^verbatim>\<open>not x\<close>.\<close>

fun truthy :: "pyval \<Rightarrow> bool" where
  "truthy PNone = False"
| "truthy (PBool b) = b"
| "truthy (PInt i) = (i \<noteq> 0)"
| "truthy (PFloat (Finite r)) = (r \<noteq> 0)"
| "truthy (PFloat PosInf) = True"
| "truthy (PFloat NegInf) = True"
| "truthy (PFloat NaN) = True"
| "truthy (PStr s) = (s \<noteq> [])"
| "truthy (PList xs) = (xs \<noteq> [])"
| "truthy (PDict kvs) = (kvs \<noteq> [])"

text \<open>
  Optional keyword arguments default to \<^verbatim>\<open>None\<close>; \<^verbatim>\<open>if owner:\<close> holds for a non-empty
  string and \<^verbatim>\<open>if cc_list:\<close> for a non-empty list.
\<close>

definition given :: "'a list option \<Rightarrow> bool" where
  "given x = (case x of None \<Rightarrow> False | Some v \<Rightarrow> v \<noteq> [])"

text \<open>
  The exceptions that can leave the module. \<^verbatim>\<open>PackageDBError\<close> is the class of line 46;
  \<^verbatim>\<open>KeyError\<close>, \<^verbatim>\<open>ValueError\<close> and \<^verbatim>\<open>TypeError\<close> are the interpreter's own;
  \<^verbatim>\<open>AuthError\<close> and \<^verbatim>\<open>ServerError\<close> stand for what the transport raises.

  Modelled from the spec: \<^verbatim>\<open>AppError\<close> is defined in \<^verbatim>\<open>fedora.client\<close>, which is not part
  of the source at hand; it carries a name, a message and the attribute \<^verbatim>\<open>extras\<close>, which
  is \<^verbatim>\<open>None\<close> unless given.
\<close>

datatype exn =
    AppError string pyval pyval
  | PackageDBError string
  | KeyError string
  | ValueError
  | TypeError
  | AuthError string
  | ServerError string

text \<open>\<^verbatim>\<open>d[k]\<close> on a dictionary raises \<^verbatim>\<open>KeyError\<close> for a missing key.\<close>

definition getitem :: "pydict \<Rightarrow> string \<Rightarrow> exn + pyval" where
  "getitem d k = (case map_of d k of None \<Rightarrow> Inl (KeyError k) | Some v \<Rightarrow> Inr v)"

text \<open>The test \<^verbatim>\<open>'status' in response and not response['status']\<close>.\<close>

definition status_falsy :: "pydict \<Rightarrow> bool" where
  "status_falsy response =
     (case map_of response ''status'' of None \<Rightarrow> False | Some v \<Rightarrow> \<not> truthy v)"

section \<open>The collection map and the branch-name resolver\<close>

definition COLLECTIONMAP :: "string \<rightharpoonup> string" where
  "COLLECTIONMAP = map_of
     [(''F'', ''Fedora''),
      (''FC'', ''Fedora''),
      (''EL'', ''Fedora EPEL''),
      (''EPEL'', ''Fedora EPEL''),
      (''OLPC'', ''Fedora OLPC''),
      (''RHL'', ''Red Hat Linux'')]"

text \<open>
  \<^verbatim>\<open>s.split(c)\<close> for a one-character separator: the pieces between all occurrences of
  the separator, so a string with \<open>n\<close> separators gives \<open>n + 1\<close> pieces.
\<close>

fun split_str :: "char \<Rightarrow> string \<Rightarrow> string list" where
  "split_str c [] = [[]]"
| "split_str c (x # xs) =
     (if x = c then [] # split_str c xs
      else (case split_str c xs of [] \<Rightarrow> [[x]] | p # ps \<Rightarrow> (x # p) # ps))"

text \<open>
  Lines 225-251. The tuple assignment \<^verbatim>\<open>collection, version = branch.split('-')\<close> raises
  \<^verbatim>\<open>ValueError\<close> unless the split has exactly two pieces. The message catalogue behind
  \<^verbatim>\<open>_\<close> is not part of the source; the untranslated text is used.
\<close>

definition canonical_branch_name :: "string \<Rightarrow> exn + (string \<times> string)" where
  "canonical_branch_name branch =
     (if branch = ''devel'' then Inr (''Fedora'', ''devel'')
      else (case split_str CHR ''-'' branch of
              [collection, version] \<Rightarrow>
                (case COLLECTIONMAP collection of
                   Some name \<Rightarrow> Inr (name, version)
                 | None \<Rightarrow> Inl (PackageDBError
                     (''Collection abbreviation '' @ collection
                        @ '' is unknown.  Use F, FC, EL, or OLPC'')))
            | _ \<Rightarrow> Inl ValueError))"

section \<open>Requests, the transport and the client state\<close>

text \<open>
  One call of \<^verbatim>\<open>self.send_request(method, auth=..., req_params=...)\<close>. Where the caller
  leaves a keyword out, the defaults \<^verbatim>\<open>auth=False\<close> and \<^verbatim>\<open>req_params=None\<close> apply.
\<close>

record request =
  req_method :: string
  req_auth :: bool
  req_params :: "pydict option"

text \<open>
  \<^verbatim>\<open>BaseClient.send_request\<close> is inherited from \<^verbatim>\<open>fedora.client\<close> and is a parameter of
  the model: a function that answers a request in a state \<open>'w\<close> of the outside world
  (server and session), either with a payload or by raising, and leaves a new state.
\<close>

type_synonym 'w transport = "request \<Rightarrow> 'w \<Rightarrow> (exn + pydict) \<times> 'w"

text \<open>
  The state threaded through an operation: the requests issued so far, the outside
  world, and the store of caller-owned list objects, by address.
\<close>

record 'w state =
  sent :: "request list"
  world :: 'w
  lists :: "nat \<Rightarrow> string list"

definition send_request :: "'w transport \<Rightarrow> request \<Rightarrow> 'w state \<Rightarrow> (exn + pydict) \<times> 'w state" where
  "send_request send req s =
     (case send req (world s) of
        (r, w') \<Rightarrow> (r, s\<lparr>sent := sent s @ [req], world := w'\<rparr>))"

text \<open>The world after a sequence of requests has been answered one after the other.\<close>

fun replay :: "'w transport \<Rightarrow> request list \<Rightarrow> 'w \<Rightarrow> 'w" where
  "replay send [] w = w"
| "replay send (req # reqs) w = replay send reqs (snd (send req w))"

section \<open>The operations of PackageDB\<close>

subsection \<open>get_package_info\<close>

text \<open>Lines 100-103: the parameters of the lookup, \<^verbatim>\<open>None\<close> without a branch.\<close>

definition package_info_data :: "string option \<Rightarrow> exn + pydict option" where
  "package_info_data branch =
     (case branch of
        None \<Rightarrow> Inr None
      | Some b \<Rightarrow>
          if b = [] then Inr None
          else (case canonical_branch_name b of
                  Inl e \<Rightarrow> Inl e
                | Inr (collection, ver) \<Rightarrow>
                    Inr (Some [(''collectionName'', PStr collection),
                               (''collectionVersion'', PStr ver)])))"

text \<open>Lines 90-109.\<close>

definition get_package_info ::
  "'w transport \<Rightarrow> string \<Rightarrow> string option \<Rightarrow> 'w state \<Rightarrow> (exn + pydict) \<times> 'w state" where
  "get_package_info send pkg branch s =
     (case package_info_data branch of
        Inl e \<Rightarrow> (Inl e, s)
      | Inr data \<Rightarrow>
          (case send_request send
                  \<lparr>req_method = ''/packages/name/'' @ pkg, req_auth = False,
                   req_params = data\<rparr> s of
             (Inl e, s') \<Rightarrow> (Inl e, s')
           | (Inr pkg_info, s') \<Rightarrow>
               if status_falsy pkg_info then
                 (case getitem pkg_info ''message'' of
                    Inl e \<Rightarrow> (Inl e, s')
                  | Inr msg \<Rightarrow> (Inl (AppError ''PackageDBError'' msg PNone), s'))
               else (Inr pkg_info, s')))"

subsection \<open>clone_branch and mass_branch\<close>

text \<open>Lines 111-126.\<close>

definition clone_branch ::
  "'w transport \<Rightarrow> string \<Rightarrow> string \<Rightarrow> string \<Rightarrow> bool \<Rightarrow> 'w state \<Rightarrow> (exn + pydict) \<times> 'w state" where
  "clone_branch send pkg branch master email_log s =
     send_request send
       \<lparr>req_method = ''/packages/dispatcher/clone_branch/'' @ pkg @ ''/'' @ branch @ ''/'' @ master,
        req_auth = True,
        req_params = Some [(''email_log'', PBool email_log)]\<rparr> s"

text \<open>Lines 128-140.\<close>

definition mass_branch :: "'w transport \<Rightarrow> string \<Rightarrow> 'w state \<Rightarrow> (exn + pydict) \<times> 'w state" where
  "mass_branch send branch s =
     send_request send
       \<lparr>req_method = ''/collections/mass_branch/'' @ branch, req_auth = True,
        req_params = None\<rparr> s"

subsection \<open>get_owners and remove_user\<close>

text \<open>Lines 265-269: the path of the ownership query.\<close>

definition owners_method :: "string \<Rightarrow> string option \<Rightarrow> string option \<Rightarrow> string" where
  "owners_method package collection collection_ver =
     (let method = ''/packages/name/'' @ package in
      case collection of
        None \<Rightarrow> method
      | Some c \<Rightarrow>
          if c = [] then method
          else (let method = method @ ''/'' @ c in
                case collection_ver of
                  None \<Rightarrow> method
                | Some v \<Rightarrow> if v = [] then method else method @ ''/'' @ v))"

text \<open>Lines 253-277.\<close>

definition get_owners ::
  "'w transport \<Rightarrow> string \<Rightarrow> string option \<Rightarrow> string option \<Rightarrow> 'w state
     \<Rightarrow> (exn + pydict) \<times> 'w state" where
  "get_owners send package collection collection_ver s =
     (case send_request send
             \<lparr>req_method = owners_method package collection collection_ver,
              req_auth = False, req_params = None\<rparr> s of
        (Inl e, s') \<Rightarrow> (Inl e, s')
      | (Inr response, s') \<Rightarrow>
          if status_falsy response then
            (case getitem response ''message'' of
               Inl e \<Rightarrow> (Inl e, s')
             | Inr msg \<Rightarrow> (Inl (AppError ''PackageDBError'' msg PNone), s'))
          else (Inr response, s'))"

text \<open>Lines 291-295: the parameters of the removal.\<close>

definition remove_user_params :: "string \<Rightarrow> string \<Rightarrow> string list option \<Rightarrow> pydict" where
  "remove_user_params username pkg_name collectn_list =
     (case collectn_list of
        None \<Rightarrow> [(''username'', PStr username), (''pkg_name'', PStr pkg_name)]
      | Some cl \<Rightarrow>
          if cl = [] then [(''username'', PStr username), (''pkg_name'', PStr pkg_name)]
          else [(''username'', PStr username), (''pkg_name'', PStr pkg_name),
                (''collectn_list'', PList (map PStr cl))])"

text \<open>Lines 279-297.\<close>

definition remove_user ::
  "'w transport \<Rightarrow> string \<Rightarrow> string \<Rightarrow> string list option \<Rightarrow> 'w state
     \<Rightarrow> (exn + pydict) \<times> 'w state" where
  "remove_user send username pkg_name collectn_list s =
     send_request send
       \<lparr>req_method = ''/packages/dispatcher/remove_user'', req_auth = True,
        req_params = Some (remove_user_params username pkg_name collectn_list)\<rparr> s"

subsection \<open>add_edit_package\<close>

text \<open>A keyword argument that is a string or \<^verbatim>\<open>None\<close>, as a value.\<close>

definition pyopt :: "string option \<Rightarrow> pyval" where
  "pyopt x = (case x of None \<Rightarrow> PNone | Some v \<Rightarrow> PStr v)"

text \<open>\<^verbatim>\<open>if x: data[key] = conv(x)\<close> for an optional string or list \<open>x\<close>.\<close>

definition set_if :: "string \<Rightarrow> 'a list option \<Rightarrow> ('a list \<Rightarrow> pyval) \<Rightarrow> pydict \<Rightarrow> pydict" where
  "set_if key x conv data =
     (case x of
        None \<Rightarrow> data
      | Some v \<Rightarrow> if v = [] then data else AList.update key (conv v) data)"

text \<open>
  Lines 198-215: the parameters of the edit request. \<^verbatim>\<open>simplejson.dumps\<close> is a library
  function and a parameter of the model. The last four arguments are the contents, at this
  point, of the lists passed as \<open>cc_list\<close>, \<open>comaintainers\<close>, \<open>groups\<close> and \<open>branches\<close>,
  each \<^verbatim>\<open>None\<close> when no list was passed.
\<close>

definition edit_package_data ::
  "(string list \<Rightarrow> string) \<Rightarrow> string option \<Rightarrow> string option \<Rightarrow> string list option
     \<Rightarrow> string list option \<Rightarrow> string list option \<Rightarrow> string list option \<Rightarrow> pydict" where
  "edit_package_data dumps owner description cc_list comaintainers groups branches =
     (let data = [];
          data = set_if ''owner'' owner PStr data;
          data = set_if ''summary'' description PStr data;
          data = set_if ''ccList'' cc_list (\<lambda>v. PStr (dumps v)) data;
          data = set_if ''comaintList'' comaintainers (\<lambda>v. PStr (dumps v)) data;
          data = set_if ''groups'' groups (\<lambda>v. PStr (dumps v)) data
      in case branches of
           None \<Rightarrow> data
         | Some b \<Rightarrow>
             if b = [] then data
             else AList.update ''collections'' (PList (map PStr b))
                    (AList.update ''collections'' (PList []) data))"

text \<open>
  Lines 197-223: the edit request and the check of its response. \<open>str_of\<close> is Python's
  conversion of a value by \<^verbatim>\<open>%s\<close>, a parameter of the model. \<open>branches\<close>, \<open>cc_list\<close>,
  \<open>comaintainers\<close> and \<open>groups\<close> are the addresses of the caller's lists, or \<^verbatim>\<open>None\<close>: each
  list is read from the store here, so a list object passed under two names is read with
  what an earlier \<^verbatim>\<open>append\<close> has put into it.
\<close>

definition edit_step ::
  "'w transport \<Rightarrow> (string list \<Rightarrow> string) \<Rightarrow> (pyval \<Rightarrow> string) \<Rightarrow> string
     \<Rightarrow> string option \<Rightarrow> string option \<Rightarrow> nat option
     \<Rightarrow> nat option \<Rightarrow> nat option \<Rightarrow> nat option
     \<Rightarrow> 'w state \<Rightarrow> (exn + unit) \<times> 'w state" where
  "edit_step send dumps str_of pkg owner description branches cc_list comaintainers groups s =
     (case send_request send
             \<lparr>req_method = ''/packages/dispatcher/edit_package/'' @ pkg, req_auth = True,
              req_params = Some (edit_package_data dumps owner description
                                   (map_option (lists s) cc_list)
                                   (map_option (lists s) comaintainers)
                                   (map_option (lists s) groups)
                                   (map_option (lists s) branches))\<rparr> s of
        (Inl e, s') \<Rightarrow> (Inl e, s')
      | (Inr response, s') \<Rightarrow>
          if status_falsy response then
            (case getitem response ''message'' of
               Inl e \<Rightarrow> (Inl e, s')
             | Inr msg \<Rightarrow>
                 (Inl (AppError ''PackageDBError''
                         (PStr (''Unable to save all information for '' @ pkg @ '': ''
                                  @ str_of msg)) PNone), s'))
          else (Inr (), s'))"

text \<open>
  Lines 177-179 for a list at address \<open>a\<close>: \<^verbatim>\<open>branches.append('devel')\<close> updates the
  caller's list in the store.
\<close>

definition ensure_devel :: "nat \<Rightarrow> 'w state \<Rightarrow> 'w state" where
  "ensure_devel a s =
     (if ''devel'' \<notin> set (lists s a)
      then s\<lparr>lists := (lists s)(a := lists s a @ [''devel''])\<rparr>
      else s)"

text \<open>
  Lines 176-195: the handler of \<^verbatim>\<open>except AppError\<close>. The test
  \<^verbatim>\<open>'devel' not in branches\<close> raises \<^verbatim>\<open>TypeError\<close> when \<open>branches\<close> is \<^verbatim>\<open>None\<close>.
\<close>

definition create_step ::
  "'w transport \<Rightarrow> (pyval \<Rightarrow> string) \<Rightarrow> string \<Rightarrow> string option \<Rightarrow> string option
     \<Rightarrow> nat option \<Rightarrow> 'w state \<Rightarrow> (exn + unit) \<times> 'w state" where
  "create_step send str_of pkg owner description branches s =
     (if given owner then
        (case branches of
           None \<Rightarrow> (Inl TypeError, s)
         | Some a \<Rightarrow>
             (let s1 = ensure_devel a s
              in case send_request send
                      \<lparr>req_method = ''/packages/dispatcher/add_package'', req_auth = True,
                       req_params = Some [(''package'', PStr pkg), (''owner'', pyopt owner),
                                          (''summary'', pyopt description)]\<rparr> s1 of
                   (Inl e, s2) \<Rightarrow> (Inl e, s2)
                 | (Inr response, s2) \<Rightarrow>
                     if status_falsy response then
                       (case getitem response ''message'' of
                          Inl e \<Rightarrow> (Inl e, s2)
                        | Inr msg \<Rightarrow>
                            (Inl (AppError ''PackageDBError''
                                    (PStr (''PackageDB returned an error creating '' @ pkg
                                             @ '': '' @ str_of msg)) PNone), s2))
                     else (Inr (), s2)))
      else (Inl (PackageDBError
                   (''Package '' @ pkg @ '' does not exist and we do not have enough''
                      @ '' information to create it.'')), s))"

text \<open>What \<^verbatim>\<open>except AppError\<close> catches.\<close>

fun is_AppError :: "exn \<Rightarrow> bool" where
  "is_AppError (AppError name msg extras) = True"
| "is_AppError e = False"

text \<open>
  Lines 142-223. After a creation, \<open>owner\<close> and \<open>description\<close> are \<^verbatim>\<open>None\<close>. The method
  returns nothing.
\<close>

definition add_edit_package ::
  "'w transport \<Rightarrow> (string list \<Rightarrow> string) \<Rightarrow> (pyval \<Rightarrow> string) \<Rightarrow> string
     \<Rightarrow> string option \<Rightarrow> string option \<Rightarrow> nat option
     \<Rightarrow> nat option \<Rightarrow> nat option \<Rightarrow> nat option
     \<Rightarrow> 'w state \<Rightarrow> (exn + unit) \<times> 'w state" where
  "add_edit_package send dumps str_of pkg owner description branches cc_list comaintainers
       groups s =
     (case get_package_info send pkg None s of
        (Inr pkg_info, s1) \<Rightarrow>
          edit_step send dumps str_of pkg owner description branches cc_list comaintainers
            groups s1
      | (Inl e, s1) \<Rightarrow>
          if is_AppError e then
            (case create_step send str_of pkg owner description branches s1 of
               (Inl e', s2) \<Rightarrow> (Inl e', s2)
             | (Inr u, s2) \<Rightarrow>
                 edit_step send dumps str_of pkg None None branches cc_list comaintainers
                   groups s2)
          else (Inl e, s1))"

section \<open>Requests by name, and what an operation issues\<close>

text \<open>The three requests of \<^verbatim>\<open>add_edit_package\<close>: lines 104, 184 and 218.\<close>

abbreviation lookup_request :: "string \<Rightarrow> request" where
  "lookup_request pkg \<equiv>
     \<lparr>req_method = ''/packages/name/'' @ pkg, req_auth = False, req_params = None\<rparr>"

abbreviation create_request :: "string \<Rightarrow> string option \<Rightarrow> string option \<Rightarrow> request" where
  "create_request pkg owner description \<equiv>
     \<lparr>req_method = ''/packages/dispatcher/add_package'', req_auth = True,
      req_params = Some [(''package'', PStr pkg), (''owner'', pyopt owner),
                         (''summary'', pyopt description)]\<rparr>"

abbreviation edit_request :: "string \<Rightarrow> pydict \<Rightarrow> request" where
  "edit_request pkg params \<equiv>
     \<lparr>req_method = ''/packages/dispatcher/edit_package/'' @ pkg, req_auth = True,
      req_params = Some params\<rparr>"

text \<open>
  Between the states \<open>s\<close> and \<open>s'\<close> exactly the requests \<open>reqs\<close> were issued, in this
  order, and the world of \<open>s'\<close> is the one in which each of them has been answered.
\<close>

definition issues :: "'w transport \<Rightarrow> 'w state \<Rightarrow> 'w state \<Rightarrow> request list \<Rightarrow> bool" where
  "issues send s s' reqs = (sent s' = sent s @ reqs \<and> world s' = replay send reqs (world s))"

text \<open>The initial lookup of \<^verbatim>\<open>add_edit_package\<close> raises what \<^verbatim>\<open>except AppError\<close> catches.\<close>

definition lookup_fails :: "'w transport \<Rightarrow> string \<Rightarrow> 'w state \<Rightarrow> bool" where
  "lookup_fails send pkg s =
     (case fst (get_package_info send pkg None s) of Inl e \<Rightarrow> is_AppError e | Inr info \<Rightarrow> False)"

text \<open>
  A server for the examples: it reports every package as missing, accepts every other
  request, and counts the requests it has answered.
\<close>

definition empty_server :: "nat transport" where
  "empty_server req w =
     (if take 15 (req_method req) = ''/packages/name/''
      then (Inr [(''status'', PBool False), (''message'', PStr ''No such package'')], Suc w)
      else (Inr [(''status'', PBool True)], Suc w))"

section \<open>Properties of the branch-name resolver\<close>

lemma split_str_not_Nil: "split_str c s \<noteq> []"
  by (induction s) (auto split: list.splits)

lemma split_str_no_sep: "c \<notin> set v \<Longrightarrow> split_str c v = [v]"
  by (induction v) auto

lemma split_str_first_sep: "c \<notin> set p \<Longrightarrow> split_str c (p @ c # v) = p # split_str c v"
  by (induction p) auto

lemma length_split_str: "length (split_str c s) = Suc (length (filter (\<lambda>x. x = c) s))"
  by (induction s) (auto split: list.splits simp: split_str_not_Nil)

lemma COLLECTIONMAP_keys:
  "COLLECTIONMAP p = Some name \<Longrightarrow> p \<in> {''F'', ''FC'', ''EL'', ''EPEL'', ''OLPC'', ''RHL''}"
  by (auto simp: COLLECTIONMAP_def split: if_splits)

lemma COLLECTIONMAP_no_dash: "COLLECTIONMAP p = Some name \<Longrightarrow> CHR ''-'' \<notin> set p"
  by (drule COLLECTIONMAP_keys) auto

lemma devel_no_dash: "p @ CHR ''-'' # v \<noteq> ''devel''"
proof
  assume "p @ CHR ''-'' # v = ''devel''"
  then have "CHR ''-'' \<in> set ''devel''" by (metis in_set_conv_decomp)
  then show False by simp
qed

lemma canonical_two_parts:
  assumes "CHR ''-'' \<notin> set p" "CHR ''-'' \<notin> set v"
  shows "canonical_branch_name (p @ CHR ''-'' # v) =
     (case COLLECTIONMAP p of
        Some name \<Rightarrow> Inr (name, v)
      | None \<Rightarrow> Inl (PackageDBError (''Collection abbreviation '' @ p
                        @ '' is unknown.  Use F, FC, EL, or OLPC'')))"
  using assms devel_no_dash[of p v]
  by (simp add: canonical_branch_name_def split_str_first_sep split_str_no_sep)

lemma canonical_bad_split:
  "branch \<noteq> ''devel'' \<Longrightarrow> length (split_str CHR ''-'' branch) \<noteq> 2 \<Longrightarrow>
     canonical_branch_name branch = Inl ValueError"
  by (auto simp: canonical_branch_name_def split: list.splits)

lemma canonical_extra_dash:
  assumes "CHR ''-'' \<notin> set p" "CHR ''-'' \<in> set v"
  shows "canonical_branch_name (p @ CHR ''-'' # v) = Inl ValueError"
proof -
  have "filter (\<lambda>x. x = CHR ''-'') v \<noteq> []" using assms(2) by (simp add: filter_empty_conv)
  then have "length (split_str CHR ''-'' (p @ CHR ''-'' # v)) \<noteq> 2"
    using assms(1) by (simp add: split_str_first_sep length_split_str)
  then show ?thesis using devel_no_dash[of p v] canonical_bad_split by simp
qed

lemma package_info_data_error:
  "branch \<noteq> [] \<Longrightarrow> canonical_branch_name branch = Inl e \<Longrightarrow>
     get_package_info send pkg (Some branch) s = (Inl e, s)"
  by (simp add: get_package_info_def package_info_data_def)

text \<open>
  C2, as the code has it: for every key \<open>P\<close> of the collection map and every version \<open>V\<close>
  that contains no \<^verbatim>\<open>-\<close>, \<^verbatim>\<open>canonical_branch_name\<close> maps \<open>P-V\<close> to the pair of the
  collection name of \<open>P\<close> and \<open>V\<close>; the token \<^verbatim>\<open>devel\<close>, which is not a key of the map,
  gives \<^verbatim>\<open>('Fedora', 'devel')\<close>.
\<close>

theorem canonical_branch_name_resolves:
  "(COLLECTIONMAP P = Some name \<and> CHR ''-'' \<notin> set V \<longrightarrow>
      canonical_branch_name (P @ ''-'' @ V) = Inr (name, V))
   \<and> canonical_branch_name ''devel'' = Inr (''Fedora'', ''devel'')
   \<and> COLLECTIONMAP ''devel'' = None"
proof (intro conjI impI)
  assume h: "COLLECTIONMAP P = Some name \<and> CHR ''-'' \<notin> set V"
  then have "CHR ''-'' \<notin> set P" by (simp add: COLLECTIONMAP_no_dash)
  with h show "canonical_branch_name (P @ ''-'' @ V) = Inr (name, V)"
    by (simp add: canonical_two_parts)
next
  show "canonical_branch_name ''devel'' = Inr (''Fedora'', ''devel'')"
    by (simp add: canonical_branch_name_def)
next
  show "COLLECTIONMAP ''devel'' = None"
    by (simp add: COLLECTIONMAP_def)
qed

text \<open>The token \<^verbatim>\<open>FC-6\<close> of the docstring.\<close>

theorem canonical_branch_name_resolves_witness:
  "COLLECTIONMAP ''FC'' = Some ''Fedora'' \<and> CHR ''-'' \<notin> set ''6''
   \<and> canonical_branch_name ''FC-6'' = Inr (''Fedora'', ''6'')"
  using canonical_branch_name_resolves [of "''FC''" "''Fedora''" "''6''"]
  by (simp add: COLLECTIONMAP_def)

text \<open>
  A version with a second \<^verbatim>\<open>-\<close> splits into three pieces, and the tuple assignment
  raises: \<^verbatim>\<open>F-1-2\<close> does not resolve to \<^verbatim>\<open>('Fedora', '1-2')\<close>.
\<close>

theorem canonical_branch_name_extra_dash_counterexample:
  "COLLECTIONMAP ''F'' = Some ''Fedora''
   \<and> canonical_branch_name (''F'' @ ''-'' @ ''1-2'') \<noteq> Inr (''Fedora'', ''1-2'')
   \<and> canonical_branch_name (''F'' @ ''-'' @ ''1-2'') = Inl ValueError"
  by (simp add: canonical_branch_name_def COLLECTIONMAP_def)

text \<open>
  C6, as the code has it: a token other than \<^verbatim>\<open>devel\<close> that has no \<^verbatim>\<open>-\<close>, or that does
  not split into exactly two pieces, fails with the \<^verbatim>\<open>ValueError\<close> of the tuple
  assignment; a token of two pieces whose first piece is no key of the collection map
  fails with a \<^verbatim>\<open>PackageDBError\<close> whose message names that piece. The resolver is a
  function of the token alone, and a lookup whose branch fails to resolve returns the
  error with the state as it was: nothing is sent.
\<close>

theorem canonical_branch_name_fails_locally:
  assumes "branch \<noteq> ''devel''"
  shows "(CHR ''-'' \<notin> set branch \<longrightarrow> canonical_branch_name branch = Inl ValueError)
     \<and> (length (split_str CHR ''-'' branch) \<noteq> 2 \<longrightarrow>
          canonical_branch_name branch = Inl ValueError)
     \<and> (branch = abbrev @ ''-'' @ version \<and> CHR ''-'' \<notin> set abbrev
          \<and> CHR ''-'' \<notin> set version \<and> COLLECTIONMAP abbrev = None \<longrightarrow>
          (\<exists>rest. canonical_branch_name branch =
             Inl (PackageDBError (''Collection abbreviation '' @ abbrev @ rest))))
     \<and> (branch \<noteq> [] \<and> canonical_branch_name branch = Inl e \<longrightarrow>
          get_package_info send pkg (Some branch) s = (Inl e, s))"
proof (intro conjI impI)
  assume "CHR ''-'' \<notin> set branch"
  then have "length (split_str CHR ''-'' branch) \<noteq> 2" by (simp add: split_str_no_sep)
  with assms show "canonical_branch_name branch = Inl ValueError"
    by (rule canonical_bad_split)
next
  assume "length (split_str CHR ''-'' branch) \<noteq> 2"
  with assms show "canonical_branch_name branch = Inl ValueError"
    by (rule canonical_bad_split)
next
  assume h: "branch = abbrev @ ''-'' @ version \<and> CHR ''-'' \<notin> set abbrev
          \<and> CHR ''-'' \<notin> set version \<and> COLLECTIONMAP abbrev = None"
  then have "canonical_branch_name branch =
      Inl (PackageDBError (''Collection abbreviation '' @ abbrev
             @ '' is unknown.  Use F, FC, EL, or OLPC''))"
    by (simp add: canonical_two_parts)
  then show "\<exists>rest. canonical_branch_name branch =
             Inl (PackageDBError (''Collection abbreviation '' @ abbrev @ rest))"
    by blast
next
  assume "branch \<noteq> [] \<and> canonical_branch_name branch = Inl e"
  then show "get_package_info send pkg (Some branch) s = (Inl e, s)"
    by (simp add: package_info_data_error)
qed

text \<open>The tokens \<^verbatim>\<open>F10\<close> (no separator) and \<^verbatim>\<open>ZZ-1\<close> (unknown abbreviation).\<close>

theorem canonical_branch_name_fails_locally_witness:
  "''F10'' \<noteq> ''devel'' \<and> CHR ''-'' \<notin> set ''F10''
   \<and> canonical_branch_name ''F10'' = Inl ValueError
   \<and> get_package_info (\<lambda>req w. (Inr [], w)) ''bash'' (Some ''F10'')
        \<lparr>sent = [], world = (), lists = (\<lambda>a. [])\<rparr>
       = (Inl ValueError, \<lparr>sent = [], world = (), lists = (\<lambda>a. [])\<rparr>)
   \<and> ''ZZ-1'' \<noteq> ''devel'' \<and> COLLECTIONMAP ''ZZ'' = None
   \<and> (\<exists>rest. canonical_branch_name ''ZZ-1'' =
         Inl (PackageDBError (''Collection abbreviation ZZ'' @ rest)))"
  using canonical_branch_name_fails_locally
          [of "''F10''" "''F''" "''10''" ValueError "\<lambda>req w. (Inr [], w)" "''bash''"
              "\<lparr>sent = [], world = (), lists = (\<lambda>a. [])\<rparr>"]
        canonical_branch_name_fails_locally
          [of "''ZZ-1''" "''ZZ''" "''1''" ValueError "\<lambda>req w. (Inr [], w)" "''bash''"
              "\<lparr>sent = [], world = (), lists = (\<lambda>a. [])\<rparr>"]
  by (simp add: COLLECTIONMAP_def)

text \<open>
  The missing separator gives a \<^verbatim>\<open>ValueError\<close>, not a \<^verbatim>\<open>PackageDBError\<close>, and the
  message for an unknown abbreviation lists four abbreviations although \<^verbatim>\<open>EPEL\<close> and
  \<^verbatim>\<open>RHL\<close> are keys of the map too.
\<close>

theorem canonical_branch_name_domain_error_counterexample:
  "canonical_branch_name ''F10'' = Inl ValueError
   \<and> canonical_branch_name ''ZZ-1'' =
       Inl (PackageDBError ''Collection abbreviation ZZ is unknown.  Use F, FC, EL, or OLPC'')
   \<and> COLLECTIONMAP ''EPEL'' = Some ''Fedora EPEL''
   \<and> COLLECTIONMAP ''RHL'' = Some ''Red Hat Linux''"
  by (simp add: canonical_branch_name_def COLLECTIONMAP_def)

section \<open>Properties of the single-request operations\<close>

lemma send_request_eq:
  "send req (world s) = (r, w') \<Longrightarrow>
     send_request send req s = (r, s\<lparr>sent := sent s @ [req], world := w'\<rparr>)"
  by (simp add: send_request_def)

lemma getitem_message:
  "getitem p ''message'' =
     (case map_of p ''message'' of None \<Rightarrow> Inl (KeyError ''message'') | Some msg \<Rightarrow> Inr msg)"
  by (simp add: getitem_def)

lemma get_package_info_response:
  assumes "package_info_data branch = Inr data"
    and "send \<lparr>req_method = ''/packages/name/'' @ pkg, req_auth = False, req_params = data\<rparr>
           (world s) = (Inr payload, w')"
  shows "fst (get_package_info send pkg branch s) =
     (if status_falsy payload then
        (case map_of payload ''message'' of
           Some msg \<Rightarrow> Inl (AppError ''PackageDBError'' msg PNone)
         | None \<Rightarrow> Inl (KeyError ''message''))
      else Inr payload)"
  using assms
  by (simp add: get_package_info_def send_request_eq getitem_message split: option.splits)

lemma get_owners_response:
  assumes "send \<lparr>req_method = owners_method package collection collection_ver,
                 req_auth = False, req_params = None\<rparr> (world s) = (Inr payload, w')"
  shows "fst (get_owners send package collection collection_ver s) =
     (if status_falsy payload then
        (case map_of payload ''message'' of
           Some msg \<Rightarrow> Inl (AppError ''PackageDBError'' msg PNone)
         | None \<Rightarrow> Inl (KeyError ''message''))
      else Inr payload)"
  using assms
  by (simp add: get_owners_def send_request_eq getitem_message split: option.splits)

text \<open>
  C1, as the code has it: when the transport answers with a payload, \<^verbatim>\<open>get_package_info\<close>
  and \<^verbatim>\<open>get_owners\<close> raise an \<^verbatim>\<open>AppError\<close> named \<^verbatim>\<open>PackageDBError\<close> that carries the
  payload's \<^verbatim>\<open>message\<close> whenever the payload has a falsy \<^verbatim>\<open>status\<close> and a \<^verbatim>\<open>message\<close>,
  raise \<^verbatim>\<open>KeyError\<close> when it has a falsy \<^verbatim>\<open>status\<close> and no \<^verbatim>\<open>message\<close>, and return the
  payload unchanged otherwise (no \<^verbatim>\<open>status\<close>, or a truthy one).
\<close>

theorem queries_check_status:
  "(package_info_data branch = Inr data
      \<and> send \<lparr>req_method = ''/packages/name/'' @ pkg, req_auth = False, req_params = data\<rparr>
           (world s) = (Inr payload, w') \<longrightarrow>
    fst (get_package_info send pkg branch s) =
      (if status_falsy payload then
         (case map_of payload ''message'' of
            Some msg \<Rightarrow> Inl (AppError ''PackageDBError'' msg PNone)
          | None \<Rightarrow> Inl (KeyError ''message''))
       else Inr payload))
   \<and> (send \<lparr>req_method = owners_method package collection collection_ver,
              req_auth = False, req_params = None\<rparr> (world s) = (Inr payload, w') \<longrightarrow>
    fst (get_owners send package collection collection_ver s) =
      (if status_falsy payload then
         (case map_of payload ''message'' of
            Some msg \<Rightarrow> Inl (AppError ''PackageDBError'' msg PNone)
          | None \<Rightarrow> Inl (KeyError ''message''))
       else Inr payload))"
  apply (intro conjI impI)
   apply (erule conjE)
   apply (erule (1) get_package_info_response)
  apply (erule get_owners_response)
  done

text \<open>The two responses of the specification's example, for both operations.\<close>

theorem queries_check_status_witness:
  "status_falsy [(''status'', PBool False), (''message'', PStr ''no such package'')]
   \<and> fst (get_package_info
            (\<lambda>req w. (Inr [(''status'', PBool False), (''message'', PStr ''no such package'')], w))
            ''bash'' None \<lparr>sent = [], world = (), lists = (\<lambda>a. [])\<rparr>)
       = Inl (AppError ''PackageDBError'' (PStr ''no such package'') PNone)
   \<and> fst (get_owners
            (\<lambda>req w. (Inr [(''status'', PBool False), (''message'', PStr ''no such package'')], w))
            ''bash'' None None \<lparr>sent = [], world = (), lists = (\<lambda>a. [])\<rparr>)
       = Inl (AppError ''PackageDBError'' (PStr ''no such package'') PNone)
   \<and> \<not> status_falsy [(''status'', PBool True), (''name'', PStr ''bash'')]
   \<and> fst (get_package_info
            (\<lambda>req w. (Inr [(''status'', PBool True), (''name'', PStr ''bash'')], w))
            ''bash'' (Some ''FC-6'') \<lparr>sent = [], world = (), lists = (\<lambda>a. [])\<rparr>)
       = Inr [(''status'', PBool True), (''name'', PStr ''bash'')]
   \<and> fst (get_owners
            (\<lambda>req w. (Inr [(''status'', PBool True), (''name'', PStr ''bash'')], w))
            ''bash'' (Some ''Fedora'') (Some ''6'') \<lparr>sent = [], world = (), lists = (\<lambda>a. [])\<rparr>)
       = Inr [(''status'', PBool True), (''name'', PStr ''bash'')]"
  using queries_check_status
          [of None None
              "\<lambda>req w. (Inr [(''status'', PBool False), (''message'', PStr ''no such package'')], w)"
              "''bash''" "\<lparr>sent = [], world = (), lists = (\<lambda>a. [])\<rparr>"
              "[(''status'', PBool False), (''message'', PStr ''no such package'')]" "()"
              "''bash''" None None]
        queries_check_status
          [of "Some ''FC-6''"
              "Some [(''collectionName'', PStr ''Fedora''), (''collectionVersion'', PStr ''6'')]"
              "\<lambda>req w. (Inr [(''status'', PBool True), (''name'', PStr ''bash'')], w)"
              "''bash''" "\<lparr>sent = [], world = (), lists = (\<lambda>a. [])\<rparr>"
              "[(''status'', PBool True), (''name'', PStr ''bash'')]" "()"
              "''bash''" "Some ''Fedora''" "Some ''6''"]
  by (simp add: status_falsy_def package_info_data_def canonical_branch_name_def
        COLLECTIONMAP_def)

text \<open>A payload with a falsy \<^verbatim>\<open>status\<close> and no \<^verbatim>\<open>message\<close>: no \<^verbatim>\<open>AppError\<close> is raised.\<close>

theorem queries_missing_message_counterexample:
  "status_falsy [(''status'', PBool False)]
   \<and> fst (get_package_info (\<lambda>req w. (Inr [(''status'', PBool False)], w)) ''bash'' None
            \<lparr>sent = [], world = (), lists = (\<lambda>a. [])\<rparr>) = Inl (KeyError ''message'')
   \<and> fst (get_owners (\<lambda>req w. (Inr [(''status'', PBool False)], w)) ''bash'' None None
            \<lparr>sent = [], world = (), lists = (\<lambda>a. [])\<rparr>) = Inl (KeyError ''message'')"
  by (simp add: status_falsy_def get_package_info_def get_owners_def package_info_data_def
        send_request_def getitem_def owners_method_def)

text \<open>
  C3, as the code has it: \<^verbatim>\<open>mass_branch\<close> issues one authenticated request to
  \<^verbatim>\<open>/collections/mass_branch/{branch}\<close> and passes on what the transport gives it. A
  payload is returned as it is, whatever its \<^verbatim>\<open>status\<close>; an error raised by the transport,
  such as an \<^verbatim>\<open>AppError\<close> with its \<^verbatim>\<open>extras\<close>, leaves the operation unchanged.
\<close>

theorem mass_branch_passes_on:
  "send \<lparr>req_method = ''/collections/mass_branch/'' @ branch, req_auth = True,
          req_params = None\<rparr> (world s) = (r, w') \<Longrightarrow>
   mass_branch send branch s =
     (r, s\<lparr>sent := sent s @ [\<lparr>req_method = ''/collections/mass_branch/'' @ branch,
                               req_auth = True, req_params = None\<rparr>],
           world := w'\<rparr>)"
  by (simp add: mass_branch_def send_request_eq)

text \<open>
  An \<^verbatim>\<open>AppError\<close> raised by the transport keeps its list of unbranched packages; a payload
  with a falsy \<^verbatim>\<open>status\<close> is returned.
\<close>

theorem mass_branch_passes_on_witness:
  "mass_branch
     (\<lambda>req w. (Inl (AppError ''BranchError'' (PStr ''partial'')
                      (PList [PStr ''pkgA'', PStr ''pkgB''])), Suc w))
     ''F-20'' \<lparr>sent = [], world = 0, lists = (\<lambda>a. [])\<rparr>
   = (Inl (AppError ''BranchError'' (PStr ''partial'') (PList [PStr ''pkgA'', PStr ''pkgB''])),
      \<lparr>sent = [\<lparr>req_method = ''/collections/mass_branch/F-20'', req_auth = True,
                 req_params = None\<rparr>],
       world = Suc 0, lists = (\<lambda>a. [])\<rparr>)
   \<and> mass_branch (\<lambda>req w. (Inr [(''status'', PBool False), (''message'', PStr ''partial'')], Suc w))
     ''F-20'' \<lparr>sent = [], world = 0, lists = (\<lambda>a. [])\<rparr>
   = (Inr [(''status'', PBool False), (''message'', PStr ''partial'')],
      \<lparr>sent = [\<lparr>req_method = ''/collections/mass_branch/F-20'', req_auth = True,
                 req_params = None\<rparr>],
       world = Suc 0, lists = (\<lambda>a. [])\<rparr>)"
  using mass_branch_passes_on
          [of "\<lambda>req w. (Inl (AppError ''BranchError'' (PStr ''partial'')
                      (PList [PStr ''pkgA'', PStr ''pkgB''])), Suc w)"
              "''F-20''" "\<lparr>sent = [], world = 0, lists = (\<lambda>a. [])\<rparr>"
              "Inl (AppError ''BranchError'' (PStr ''partial'')
                      (PList [PStr ''pkgA'', PStr ''pkgB'']))" "Suc 0"]
        mass_branch_passes_on
          [of "\<lambda>req w. (Inr [(''status'', PBool False), (''message'', PStr ''partial'')], Suc w)"
              "''F-20''" "\<lparr>sent = [], world = 0, lists = (\<lambda>a. [])\<rparr>"
              "Inr [(''status'', PBool False), (''message'', PStr ''partial'')]" "Suc 0"]
  by simp

text \<open>The response of the specification's example is returned, not raised.\<close>

theorem mass_branch_falsy_status_counterexample:
  "status_falsy [(''status'', PBool False), (''message'', PStr ''partial''),
                 (''extras'', PList [PStr ''pkgA'', PStr ''pkgB''])]
   \<and> fst (mass_branch
            (\<lambda>req w. (Inr [(''status'', PBool False), (''message'', PStr ''partial''),
                            (''extras'', PList [PStr ''pkgA'', PStr ''pkgB''])], w))
            ''F-20'' \<lparr>sent = [], world = (), lists = (\<lambda>a. [])\<rparr>)
       = Inr [(''status'', PBool False), (''message'', PStr ''partial''),
              (''extras'', PList [PStr ''pkgA'', PStr ''pkgB''])]"
  by (simp add: status_falsy_def mass_branch_def send_request_def)

text \<open>
  C8, as the code has it: \<^verbatim>\<open>remove_user\<close> sends one authenticated request to
  \<^verbatim>\<open>/packages/dispatcher/remove_user\<close>; its parameters leave \<^verbatim>\<open>collectn_list\<close> out when
  the list is \<^verbatim>\<open>None\<close> or empty and hold the list as given when it is not empty; the
  result of the transport is returned as it is, with no check of \<^verbatim>\<open>status\<close>.
\<close>

theorem remove_user_request:
  "(collectn_list = None \<or> collectn_list = Some [] \<longrightarrow>
      remove_user_params username pkg_name collectn_list =
        [(''username'', PStr username), (''pkg_name'', PStr pkg_name)])
   \<and> (collectn_list = Some cl \<and> cl \<noteq> [] \<longrightarrow>
      remove_user_params username pkg_name collectn_list =
        [(''username'', PStr username), (''pkg_name'', PStr pkg_name),
         (''collectn_list'', PList (map PStr cl))])
   \<and> (send \<lparr>req_method = ''/packages/dispatcher/remove_user'', req_auth = True,
              req_params = Some (remove_user_params username pkg_name collectn_list)\<rparr>
         (world s) = (r, w') \<longrightarrow>
      remove_user send username pkg_name collectn_list s =
        (r, s\<lparr>sent := sent s @
                 [\<lparr>req_method = ''/packages/dispatcher/remove_user'', req_auth = True,
                   req_params = Some (remove_user_params username pkg_name collectn_list)\<rparr>],
              world := w'\<rparr>))"
  by (auto simp: remove_user_params_def remove_user_def send_request_eq)

text \<open>
  The calls of the specification's example; a payload with a falsy \<^verbatim>\<open>status\<close> is
  returned.
\<close>

theorem remove_user_request_witness:
  "remove_user_params ''bob'' ''foo'' None
     = [(''username'', PStr ''bob''), (''pkg_name'', PStr ''foo'')]
   \<and> remove_user_params ''bob'' ''foo'' (Some [''F-10''])
     = [(''username'', PStr ''bob''), (''pkg_name'', PStr ''foo''),
        (''collectn_list'', PList [PStr ''F-10''])]
   \<and> status_falsy [(''status'', PBool False), (''message'', PStr ''no such user'')]
   \<and> remove_user (\<lambda>req w. (Inr [(''status'', PBool False), (''message'', PStr ''no such user'')], w))
        ''bob'' ''foo'' (Some [''F-10'']) \<lparr>sent = [], world = (), lists = (\<lambda>a. [])\<rparr>
     = (Inr [(''status'', PBool False), (''message'', PStr ''no such user'')],
        \<lparr>sent = [\<lparr>req_method = ''/packages/dispatcher/remove_user'', req_auth = True,
                   req_params = Some [(''username'', PStr ''bob''), (''pkg_name'', PStr ''foo''),
                                      (''collectn_list'', PList [PStr ''F-10''])]\<rparr>],
         world = (), lists = (\<lambda>a. [])\<rparr>)"
  using remove_user_request
          [of None "''bob''" "''foo''" "[''F-10'']"
              "\<lambda>req w. (Inr [(''status'', PBool False), (''message'', PStr ''no such user'')], w)"
              "\<lparr>sent = [], world = (), lists = (\<lambda>a. [])\<rparr>"
              "Inr [(''status'', PBool False), (''message'', PStr ''no such user'')]" "()"]
        remove_user_request
          [of "Some [''F-10'']" "''bob''" "''foo''" "[''F-10'']"
              "\<lambda>req w. (Inr [(''status'', PBool False), (''message'', PStr ''no such user'')], w)"
              "\<lparr>sent = [], world = (), lists = (\<lambda>a. [])\<rparr>"
              "Inr [(''status'', PBool False), (''message'', PStr ''no such user'')]" "()"]
  by (simp add: status_falsy_def)

text \<open>An empty list is a list that was given, and it is left out of the request.\<close>

theorem remove_user_empty_list_counterexample:
  "remove_user_params ''bob'' ''foo'' (Some [])
     = [(''username'', PStr ''bob''), (''pkg_name'', PStr ''foo'')]
   \<and> map_of (remove_user_params ''bob'' ''foo'' (Some [])) ''collectn_list'' = None"
  by (simp add: remove_user_params_def)

section \<open>Properties of add_edit_package\<close>

lemma replay_append: "replay send (xs @ ys) w = replay send ys (replay send xs w)"
  by (induction xs arbitrary: w) auto

lemma issues_nothing: "issues send s s []"
  by (simp add: issues_def)

lemma issues_trans:
  "issues send s s1 xs \<Longrightarrow> issues send s1 s2 ys \<Longrightarrow> issues send s s2 (xs @ ys)"
  by (simp add: issues_def replay_append)

lemma issues_send_request: "issues send s (snd (send_request send req s)) [req]"
  by (simp add: issues_def send_request_def split: prod.splits)

lemma send_request_lists: "lists (snd (send_request send req s)) = lists s"
  by (simp add: send_request_def split: prod.splits)

lemma issues_lists_update: "issues send (s\<lparr>lists := f\<rparr>) s' reqs = issues send s s' reqs"
  by (simp add: issues_def)

lemma get_package_info_snd:
  "snd (get_package_info send pkg branch s) =
     (case package_info_data branch of
        Inl e \<Rightarrow> s
      | Inr data \<Rightarrow>
          snd (send_request send
                 \<lparr>req_method = ''/packages/name/'' @ pkg, req_auth = False,
                  req_params = data\<rparr> s))"
  by (simp add: get_package_info_def split: sum.splits prod.splits)

lemma get_package_info_issues_lookup:
  "issues send s (snd (get_package_info send pkg None s)) [lookup_request pkg]"
  by (simp add: get_package_info_snd package_info_data_def issues_send_request)

lemma get_package_info_lists: "lists (snd (get_package_info send pkg branch s)) = lists s"
  by (simp add: get_package_info_snd send_request_lists split: sum.splits)

lemma get_package_info_issues:
  "\<exists>reqs. length reqs \<le> 1 \<and> issues send s (snd (get_package_info send pkg branch s)) reqs"
proof (cases "package_info_data branch")
  case (Inl e)
  then have "issues send s (snd (get_package_info send pkg branch s)) []"
    by (simp add: get_package_info_snd issues_nothing)
  then show ?thesis by (intro exI [of _ "[]"]) simp
next
  case (Inr data)
  let ?req = "\<lparr>req_method = ''/packages/name/'' @ pkg, req_auth = False, req_params = data\<rparr>"
  from Inr have "issues send s (snd (get_package_info send pkg branch s)) [?req]"
    by (simp add: get_package_info_snd issues_send_request)
  then show ?thesis by (intro exI [of _ "[?req]"]) simp
qed

lemma ensure_devel_sent [simp]: "sent (ensure_devel a s) = sent s"
  by (simp add: ensure_devel_def)

lemma ensure_devel_world [simp]: "world (ensure_devel a s) = world s"
  by (simp add: ensure_devel_def)

lemma ensure_devel_lists:
  "lists (ensure_devel a s) =
     (if ''devel'' \<in> set (lists s a) then lists s else (lists s)(a := lists s a @ [''devel'']))"
  by (simp add: ensure_devel_def)

lemma issues_ensure_devel: "issues send (ensure_devel a s) s' reqs = issues send s s' reqs"
  by (simp add: issues_def)

lemma edit_step_snd:
  "snd (edit_step send dumps str_of pkg owner description branches cc_list comaintainers
          groups s) =
   snd (send_request send
          (edit_request pkg (edit_package_data dumps owner description
                               (map_option (lists s) cc_list)
                               (map_option (lists s) comaintainers)
                               (map_option (lists s) groups)
                               (map_option (lists s) branches))) s)"
  by (simp add: edit_step_def split: prod.splits sum.splits)

lemma create_step_no_owner:
  "\<not> given owner \<Longrightarrow>
     create_step send str_of pkg owner description branches s =
       (Inl (PackageDBError (''Package '' @ pkg
               @ '' does not exist and we do not have enough information to create it.'')), s)"
  by (simp add: create_step_def)

lemma create_step_no_branches:
  "given owner \<Longrightarrow> create_step send str_of pkg owner description None s = (Inl TypeError, s)"
  by (simp add: create_step_def)

lemma create_step_snd:
  "given owner \<Longrightarrow>
     snd (create_step send str_of pkg owner description (Some a) s) =
     snd (send_request send (create_request pkg owner description) (ensure_devel a s))"
  by (simp add: create_step_def Let_def split: prod.splits sum.splits)

lemma create_step_success:
  assumes "given owner"
    and "send (create_request pkg owner description) (world s) = (Inr response, w2)"
    and "\<not> status_falsy response"
  shows "fst (create_step send str_of pkg owner description (Some a) s) = Inr ()"
  using assms by (simp add: create_step_def Let_def send_request_eq)

lemma add_edit_package_lookup_fails:
  assumes "lookup_fails send pkg s"
  shows "add_edit_package send dumps str_of pkg owner description branches cc_list
           comaintainers groups s =
     (case create_step send str_of pkg owner description branches
             (snd (get_package_info send pkg None s)) of
        (Inl e', s2) \<Rightarrow> (Inl e', s2)
      | (Inr u, s2) \<Rightarrow>
          edit_step send dumps str_of pkg None None branches cc_list comaintainers groups s2)"
proof (cases "get_package_info send pkg None s")
  case (Pair r s1)
  with assms obtain e where "r = Inl e" "is_AppError e"
    by (cases r) (auto simp: lookup_fails_def)
  with Pair show ?thesis by (simp add: add_edit_package_def)
qed

lemma add_edit_package_lookup_ok:
  assumes "\<not> lookup_fails send pkg s"
  shows "snd (add_edit_package send dumps str_of pkg owner description branches cc_list
           comaintainers groups s) =
     (case fst (get_package_info send pkg None s) of
        Inl e \<Rightarrow> snd (get_package_info send pkg None s)
      | Inr info \<Rightarrow>
          snd (edit_step send dumps str_of pkg owner description branches cc_list comaintainers
                 groups (snd (get_package_info send pkg None s))))"
proof (cases "get_package_info send pkg None s")
  case (Pair r s1)
  with assms show ?thesis
    by (cases r) (auto simp: add_edit_package_def lookup_fails_def)
qed

lemma edit_package_data_cleared:
  "map_of (edit_package_data dumps None None cc_list comaintainers groups branches) ''owner''
     = None
   \<and> map_of (edit_package_data dumps None None cc_list comaintainers groups branches)
       ''summary'' = None"
  by (simp add: edit_package_data_def set_if_def update_conv' split: option.splits)

lemma issues_after_ensure_devel:
  "issues send s (snd (send_request send req (ensure_devel a s))) [req]"
  using issues_send_request [of send "ensure_devel a s" req]
  by (simp add: issues_def)

text \<open>
  C4: when the initial lookup raises an \<^verbatim>\<open>AppError\<close>, an owner was supplied, and the
  creation request is answered with a payload whose \<^verbatim>\<open>status\<close> is not falsy, then
  \<^verbatim>\<open>add_edit_package\<close> issues exactly the lookup, the creation request and then the edit
  request; the edit request is built with owner and description cleared, so its
  parameters hold neither \<^verbatim>\<open>owner\<close> nor \<^verbatim>\<open>summary\<close>, and it is sent whatever the other
  arguments are. Its list parameters are read from the store as the creation path has left
  it, that is, after \<^verbatim>\<open>devel\<close> was appended to the branches list.
\<close>

theorem add_edit_package_after_creation:
  assumes "lookup_fails send pkg s" and "given owner"
    and "send (create_request pkg owner description)
           (world (snd (get_package_info send pkg None s))) = (Inr response, w2)"
    and "\<not> status_falsy response"
    and "store = (if ''devel'' \<in> set (lists s a) then lists s
                  else (lists s)(a := lists s a @ [''devel'']))"
    and "params = edit_package_data dumps None None (map_option store cc_list)
                    (map_option store comaintainers) (map_option store groups)
                    (Some (store a))"
  shows "issues send s
           (snd (add_edit_package send dumps str_of pkg owner description (Some a) cc_list
                   comaintainers groups s))
           [lookup_request pkg, create_request pkg owner description, edit_request pkg params]
       \<and> map_of params ''owner'' = None \<and> map_of params ''summary'' = None"
proof -
  let ?s1 = "snd (get_package_info send pkg None s)"
  let ?c = "create_step send str_of pkg owner description (Some a) ?s1"
  let ?s2 = "snd ?c"
  have world1: "world (ensure_devel a ?s1) = world ?s1" by simp
  have ok: "fst ?c = Inr ()"
    using assms(2-4) world1 by (simp add: create_step_def Let_def send_request_eq)
  have s2: "?s2 = snd (send_request send (create_request pkg owner description)
                         (ensure_devel a ?s1))"
    using assms(2) by (rule create_step_snd)
  have "lists ?s2 = lists (ensure_devel a ?s1)"
    unfolding s2 by (rule send_request_lists)
  then have store: "lists ?s2 = store"
    using assms(5) by (simp add: ensure_devel_lists get_package_info_lists)
  have whole: "add_edit_package send dumps str_of pkg owner description (Some a) cc_list
                 comaintainers groups s
      = edit_step send dumps str_of pkg None None (Some a) cc_list comaintainers groups ?s2"
    using ok by (cases ?c) (simp add: add_edit_package_lookup_fails [OF assms(1)])
  have i1: "issues send s ?s1 [lookup_request pkg]"
    by (rule get_package_info_issues_lookup)
  have i2: "issues send ?s1 ?s2 [create_request pkg owner description]"
    unfolding s2 by (rule issues_after_ensure_devel)
  have i3: "issues send ?s2
      (snd (edit_step send dumps str_of pkg None None (Some a) cc_list comaintainers groups ?s2))
      [edit_request pkg params]"
    unfolding edit_step_snd using store assms(6) issues_send_request [of send ?s2]
    by simp
  have "issues send s
      (snd (edit_step send dumps str_of pkg None None (Some a) cc_list comaintainers groups ?s2))
      ([lookup_request pkg] @ [create_request pkg owner description] @ [edit_request pkg params])"
    using issues_trans [OF i1 issues_trans [OF i2 i3]] .
  then show ?thesis
    using whole assms(6) edit_package_data_cleared by simp
qed

text \<open>
  The call \<^verbatim>\<open>add_edit_package('newpkg', owner='alice', branches=['devel'])\<close> against a
  server that does not know the package; and a call that passes one list object
  \<^verbatim>\<open>['F-10']\<close> as \<open>branches\<close> and as \<open>cc_list\<close>, whose \<^verbatim>\<open>ccList\<close> parameter is the dump of
  the list with \<^verbatim>\<open>devel\<close> in it.
\<close>

theorem add_edit_package_after_creation_witness:
  "lookup_fails empty_server ''newpkg'' \<lparr>sent = [], world = 0, lists = (\<lambda>a. [''devel''])\<rparr>
   \<and> given (Some ''alice'')
   \<and> empty_server (create_request ''newpkg'' (Some ''alice'') None) (Suc 0)
       = (Inr [(''status'', PBool True)], Suc (Suc 0))
   \<and> \<not> status_falsy [(''status'', PBool True)]
   \<and> edit_package_data (\<lambda>xs. concat xs) None None None None None (Some [''devel''])
       = [(''collections'', PList [PStr ''devel''])]
   \<and> sent (snd (add_edit_package empty_server (\<lambda>xs. concat xs) (\<lambda>v. ''?'') ''newpkg''
                  (Some ''alice'') None (Some 0) None None None
                  \<lparr>sent = [], world = 0, lists = (\<lambda>a. [''devel''])\<rparr>))
       = [lookup_request ''newpkg'',
          \<lparr>req_method = ''/packages/dispatcher/add_package'', req_auth = True,
           req_params = Some [(''package'', PStr ''newpkg''), (''owner'', PStr ''alice''),
                              (''summary'', PNone)]\<rparr>,
          \<lparr>req_method = ''/packages/dispatcher/edit_package/newpkg'', req_auth = True,
           req_params = Some [(''collections'', PList [PStr ''devel''])]\<rparr>]
   \<and> lookup_fails empty_server ''newpkg'' \<lparr>sent = [], world = 0, lists = (\<lambda>a. [''F-10''])\<rparr>
   \<and> sent (snd (add_edit_package empty_server (\<lambda>xs. concat xs) (\<lambda>v. ''?'') ''newpkg''
                  (Some ''alice'') None (Some 0) (Some 0) None None
                  \<lparr>sent = [], world = 0, lists = (\<lambda>a. [''F-10''])\<rparr>))
       = [lookup_request ''newpkg'',
          \<lparr>req_method = ''/packages/dispatcher/add_package'', req_auth = True,
           req_params = Some [(''package'', PStr ''newpkg''), (''owner'', PStr ''alice''),
                              (''summary'', PNone)]\<rparr>,
          \<lparr>req_method = ''/packages/dispatcher/edit_package/newpkg'', req_auth = True,
           req_params = Some [(''ccList'', PStr ''F-10devel''),
                              (''collections'', PList [PStr ''F-10'', PStr ''devel''])]\<rparr>]"
  using add_edit_package_after_creation
          [of empty_server "''newpkg''" "\<lparr>sent = [], world = 0, lists = (\<lambda>a. [''devel''])\<rparr>"
              "Some ''alice''" None "[(''status'', PBool True)]" "Suc (Suc 0)"
              "\<lambda>a. [''devel'']" 0
              "[(''collections'', PList [PStr ''devel''])]" "\<lambda>xs. concat xs" None None None
              "\<lambda>v. ''?''"]
        add_edit_package_after_creation
          [of empty_server "''newpkg''" "\<lparr>sent = [], world = 0, lists = (\<lambda>a. [''F-10''])\<rparr>"
              "Some ''alice''" None "[(''status'', PBool True)]" "Suc (Suc 0)"
              "(\<lambda>a. [''F-10''])(0 := [''F-10'', ''devel''])" 0
              "[(''ccList'', PStr ''F-10devel''),
                (''collections'', PList [PStr ''F-10'', PStr ''devel''])]"
              "\<lambda>xs. concat xs" "Some 0" None None "\<lambda>v. ''?''"]
  by (simp add: lookup_fails_def get_package_info_def package_info_data_def send_request_def
        empty_server_def status_falsy_def getitem_def given_def issues_def pyopt_def
        edit_package_data_def set_if_def)

text \<open>
  C5: when the initial lookup raises an \<^verbatim>\<open>AppError\<close> and no owner was supplied (\<^verbatim>\<open>None\<close>,
  or the empty string), \<^verbatim>\<open>add_edit_package\<close> raises the \<^verbatim>\<open>PackageDBError\<close> that says the
  package cannot be created, in the state the lookup left: the lookup is the only request
  issued.
\<close>

theorem add_edit_package_cannot_create:
  assumes "lookup_fails send pkg s" and "\<not> given owner"
  shows "add_edit_package send dumps str_of pkg owner description branches cc_list
           comaintainers groups s
         = (Inl (PackageDBError (''Package '' @ pkg
               @ '' does not exist and we do not have enough information to create it.'')),
            snd (get_package_info send pkg None s))
       \<and> issues send s
           (snd (add_edit_package send dumps str_of pkg owner description branches cc_list
                   comaintainers groups s))
           [lookup_request pkg]"
  using assms get_package_info_issues_lookup [of send s pkg]
  by (simp add: add_edit_package_lookup_fails create_step_no_owner)

text \<open>The call \<^verbatim>\<open>add_edit_package('nopkg')\<close>.\<close>

theorem add_edit_package_cannot_create_witness:
  "lookup_fails empty_server ''nopkg'' \<lparr>sent = [], world = 0, lists = (\<lambda>a. [])\<rparr>
   \<and> \<not> given (None :: string option)
   \<and> fst (add_edit_package empty_server (\<lambda>xs. concat xs) (\<lambda>v. ''?'') ''nopkg'' None None None
            None None None \<lparr>sent = [], world = 0, lists = (\<lambda>a. [])\<rparr>)
       = Inl (PackageDBError
           ''Package nopkg does not exist and we do not have enough information to create it.'')
   \<and> sent (snd (add_edit_package empty_server (\<lambda>xs. concat xs) (\<lambda>v. ''?'') ''nopkg'' None
                  None None None None None \<lparr>sent = [], world = 0, lists = (\<lambda>a. [])\<rparr>))
       = [lookup_request ''nopkg'']"
  using add_edit_package_cannot_create
          [of empty_server "''nopkg''" "\<lparr>sent = [], world = 0, lists = (\<lambda>a. [])\<rparr>" None
              "\<lambda>xs. concat xs" "\<lambda>v. ''?''" None None None None None]
  by (simp add: lookup_fails_def get_package_info_def package_info_data_def send_request_def
        empty_server_def status_falsy_def getitem_def given_def issues_def)

text \<open>
  C10: when the initial lookup raises an \<^verbatim>\<open>AppError\<close>, an owner was supplied and
  \<open>branches\<close> is left at \<^verbatim>\<open>None\<close>, the membership test raises \<^verbatim>\<open>TypeError\<close> (not a
  \<^verbatim>\<open>PackageDBError\<close>) in the state the lookup left: no creation request is issued.
\<close>

theorem add_edit_package_branches_None:
  assumes "lookup_fails send pkg s" and "given owner"
  shows "add_edit_package send dumps str_of pkg owner description None cc_list
           comaintainers groups s
         = (Inl TypeError, snd (get_package_info send pkg None s))
       \<and> issues send s
           (snd (add_edit_package send dumps str_of pkg owner description None cc_list
                   comaintainers groups s))
           [lookup_request pkg]"
  using assms get_package_info_issues_lookup [of send s pkg]
  by (simp add: add_edit_package_lookup_fails create_step_no_branches)

text \<open>The call \<^verbatim>\<open>add_edit_package('newpkg', owner='alice')\<close>.\<close>

theorem add_edit_package_branches_None_witness:
  "lookup_fails empty_server ''newpkg'' \<lparr>sent = [], world = 0, lists = (\<lambda>a. [])\<rparr>
   \<and> given (Some ''alice'')
   \<and> fst (add_edit_package empty_server (\<lambda>xs. concat xs) (\<lambda>v. ''?'') ''newpkg''
            (Some ''alice'') None None None None None
            \<lparr>sent = [], world = 0, lists = (\<lambda>a. [])\<rparr>)
       = Inl TypeError
   \<and> sent (snd (add_edit_package empty_server (\<lambda>xs. concat xs) (\<lambda>v. ''?'') ''newpkg''
                  (Some ''alice'') None None None None None
                  \<lparr>sent = [], world = 0, lists = (\<lambda>a. [])\<rparr>))
       = [lookup_request ''newpkg'']"
  using add_edit_package_branches_None
          [of empty_server "''newpkg''" "\<lparr>sent = [], world = 0, lists = (\<lambda>a. [])\<rparr>"
              "Some ''alice''" "\<lambda>xs. concat xs" "\<lambda>v. ''?''" None None None None]
  by (simp add: lookup_fails_def get_package_info_def package_info_data_def send_request_def
        empty_server_def status_falsy_def getitem_def given_def issues_def)

section \<open>The requests an operation issues, and the caller's list\<close>

lemma at_most_trans:
  assumes "\<exists>xs. length xs \<le> m \<and> issues send s s1 xs"
    and "\<exists>ys. length ys \<le> n \<and> issues send s1 s2 ys"
  shows "\<exists>zs. length zs \<le> m + n \<and> issues send s s2 zs"
proof -
  from assms(1) obtain xs where xs: "length xs \<le> m" "issues send s s1 xs" by blast
  from assms(2) obtain ys where ys: "length ys \<le> n" "issues send s1 s2 ys" by blast
  from xs(2) ys(2) have "issues send s s2 (xs @ ys)" by (rule issues_trans)
  moreover from xs(1) ys(1) have "length (xs @ ys) \<le> m + n" by simp
  ultimately show ?thesis by blast
qed

lemma at_most_nothing: "\<exists>xs. length xs \<le> n \<and> issues send s s xs"
  using issues_nothing [of send s] by (intro exI [of _ "[]"]) simp

lemma at_most_send_request:
  "\<exists>xs. length xs \<le> 1 \<and> issues send s (snd (send_request send req s)) xs"
  using issues_send_request [of send s req] by (intro exI [of _ "[req]"]) simp

lemma edit_step_at_most:
  "\<exists>xs. length xs \<le> 1 \<and>
     issues send s (snd (edit_step send dumps str_of pkg owner description branches cc_list
                           comaintainers groups s)) xs"
  unfolding edit_step_snd by (rule at_most_send_request)

lemma create_step_at_most:
  "\<exists>xs. length xs \<le> 1 \<and>
     issues send s (snd (create_step send str_of pkg owner description branches s)) xs"
proof (cases "given owner")
  case False
  then show ?thesis by (simp add: create_step_no_owner at_most_nothing)
next
  case True
  show ?thesis
  proof (cases branches)
    case None
    with True show ?thesis by (simp add: create_step_no_branches at_most_nothing)
  next
    case (Some a)
    have "issues send s (snd (create_step send str_of pkg owner description (Some a) s))
            [create_request pkg owner description]"
      unfolding create_step_snd [OF True] by (rule issues_after_ensure_devel)
    with Some show ?thesis
      by (intro exI [of _ "[create_request pkg owner description]"]) simp
  qed
qed

lemma add_edit_package_at_most:
  "\<exists>xs. length xs \<le> 3 \<and>
     issues send s (snd (add_edit_package send dumps str_of pkg owner description branches
                           cc_list comaintainers groups s)) xs"
proof -
  let ?s1 = "snd (get_package_info send pkg None s)"
  let ?res = "add_edit_package send dumps str_of pkg owner description branches cc_list
                comaintainers groups s"
  have first: "\<exists>xs. length xs \<le> 1 \<and> issues send s ?s1 xs"
    by (rule get_package_info_issues)
  have rest: "\<exists>ys. length ys \<le> 2 \<and> issues send ?s1 (snd ?res) ys"
  proof (cases "lookup_fails send pkg s")
    case False
    show ?thesis
    proof (cases "fst (get_package_info send pkg None s)")
      case (Inl e)
      with False show ?thesis by (simp add: add_edit_package_lookup_ok at_most_nothing)
    next
      case (Inr info)
      have "\<exists>ys. length ys \<le> 0 + 1 \<and> issues send ?s1
              (snd (edit_step send dumps str_of pkg owner description branches cc_list
                      comaintainers groups ?s1)) ys"
        by (rule at_most_trans [OF at_most_nothing edit_step_at_most])
      with False Inr show ?thesis
        by (simp add: add_edit_package_lookup_ok) (metis le_SucI numeral_2_eq_2)
    qed
  next
    case True
    let ?c = "create_step send str_of pkg owner description branches ?s1"
    have c: "\<exists>xs. length xs \<le> 1 \<and> issues send ?s1 (snd ?c) xs"
      by (rule create_step_at_most)
    show ?thesis
    proof (cases ?c)
      case (Pair r s2)
      show ?thesis
      proof (cases r)
        case (Inl e')
        with Pair have "snd ?res = snd ?c"
          by (simp add: add_edit_package_lookup_fails [OF True])
        with at_most_trans [OF c at_most_nothing [of 1 send "snd ?c"]] show ?thesis
          by (simp add: numeral_2_eq_2)
      next
        case (Inr u)
        with Pair have "snd ?res = snd (edit_step send dumps str_of pkg None None branches
                          cc_list comaintainers groups (snd ?c))"
          by (simp add: add_edit_package_lookup_fails [OF True])
        with at_most_trans [OF c edit_step_at_most [of send "snd ?c"]] show ?thesis
          by (simp add: numeral_2_eq_2)
      qed
    qed
  qed
  from at_most_trans [OF first rest] show ?thesis by (simp add: numeral_3_eq_3)
qed

lemma edit_step_lists:
  "lists (snd (edit_step send dumps str_of pkg owner description branches cc_list comaintainers
                 groups s)) = lists s"
  unfolding edit_step_snd by (rule send_request_lists)

lemma create_step_lists:
  "lists (snd (create_step send str_of pkg owner description branches s)) =
     (case branches of
        None \<Rightarrow> lists s
      | Some a \<Rightarrow> if given owner then lists (ensure_devel a s) else lists s)"
proof (cases "given owner")
  case False
  then show ?thesis by (simp add: create_step_no_owner split: option.splits)
next
  case True
  then show ?thesis
    by (cases branches)
       (simp_all add: create_step_no_branches create_step_snd send_request_lists)
qed

text \<open>
  C7, as the code has it: every operation of the client issues at most three requests, one
  after the other, and only \<^verbatim>\<open>add_edit_package\<close> issues more than one (the lookup, the
  creation request and the edit request); when an operation returns, each request it
  issued has been answered, in the order of issue. \<^verbatim>\<open>canonical_branch_name\<close> has no access
  to the transport at all.
\<close>

theorem operations_issue_at_most_three:
  "(\<exists>reqs. length reqs \<le> 1 \<and>
      issues send s (snd (get_package_info send pkg branch s)) reqs)
   \<and> (\<exists>reqs. length reqs \<le> 1 \<and>
      issues send s (snd (clone_branch send pkg target master email_log s)) reqs)
   \<and> (\<exists>reqs. length reqs \<le> 1 \<and>
      issues send s (snd (mass_branch send target s)) reqs)
   \<and> (\<exists>reqs. length reqs \<le> 1 \<and>
      issues send s (snd (get_owners send pkg collection collection_ver s)) reqs)
   \<and> (\<exists>reqs. length reqs \<le> 1 \<and>
      issues send s (snd (remove_user send username pkg collectn_list s)) reqs)
   \<and> (\<exists>reqs. length reqs \<le> 3 \<and>
      issues send s (snd (add_edit_package send dumps str_of pkg owner description branches
                            cc_list comaintainers groups s)) reqs)"
proof (intro conjI)
  show "\<exists>reqs. length reqs \<le> 1 \<and>
      issues send s (snd (get_package_info send pkg branch s)) reqs"
    by (rule get_package_info_issues)
  show "\<exists>reqs. length reqs \<le> 1 \<and>
      issues send s (snd (clone_branch send pkg target master email_log s)) reqs"
    unfolding clone_branch_def by (rule at_most_send_request)
  show "\<exists>reqs. length reqs \<le> 1 \<and>
      issues send s (snd (mass_branch send target s)) reqs"
    unfolding mass_branch_def by (rule at_most_send_request)
  have owners: "snd (get_owners send pkg collection collection_ver s) =
      snd (send_request send \<lparr>req_method = owners_method pkg collection collection_ver,
                               req_auth = False, req_params = None\<rparr> s)"
    by (simp add: get_owners_def split: prod.splits sum.splits)
  show "\<exists>reqs. length reqs \<le> 1 \<and>
      issues send s (snd (get_owners send pkg collection collection_ver s)) reqs"
    unfolding owners by (rule at_most_send_request)
  show "\<exists>reqs. length reqs \<le> 1 \<and>
      issues send s (snd (remove_user send username pkg collectn_list s)) reqs"
    unfolding remove_user_def by (rule at_most_send_request)
  show "\<exists>reqs. length reqs \<le> 3 \<and>
      issues send s (snd (add_edit_package send dumps str_of pkg owner description branches
                            cc_list comaintainers groups s)) reqs"
    by (rule add_edit_package_at_most)
qed

text \<open>The bounds at a creation and at a mass branch.\<close>

theorem operations_issue_at_most_three_witness:
  "length (sent (snd (add_edit_package empty_server (\<lambda>xs. concat xs) (\<lambda>v. ''?'') ''newpkg''
                        (Some ''alice'') None (Some 0) None None None
                        \<lparr>sent = [], world = 0, lists = (\<lambda>a. [''devel''])\<rparr>))) \<le> 3
   \<and> length (sent (snd (mass_branch empty_server ''F-20''
                        \<lparr>sent = [], world = 0, lists = (\<lambda>a. [''devel''])\<rparr>))) \<le> 1"
  using operations_issue_at_most_three
          [of empty_server "\<lparr>sent = [], world = 0, lists = (\<lambda>a. [''devel''])\<rparr>" "''newpkg''"
              None "''F-20''" "''devel''" True None None "''alice''" None
              "\<lambda>xs. concat xs" "\<lambda>v. ''?''" "Some ''alice''" None "Some 0" None None None]
  by (auto simp: issues_def)

text \<open>
  \<^verbatim>\<open>add_edit_package('newpkg', owner='alice', branches=['devel'])\<close> for a package the
  server does not know issues three requests, not two.
\<close>

theorem add_edit_package_three_requests_counterexample:
  "sent (snd (add_edit_package empty_server (\<lambda>xs. concat xs) (\<lambda>v. ''?'') ''newpkg''
                (Some ''alice'') None (Some 0) None None None
                \<lparr>sent = [], world = 0, lists = (\<lambda>a. [''devel''])\<rparr>))
     = [\<lparr>req_method = ''/packages/name/newpkg'', req_auth = False, req_params = None\<rparr>,
        \<lparr>req_method = ''/packages/dispatcher/add_package'', req_auth = True,
         req_params = Some [(''package'', PStr ''newpkg''), (''owner'', PStr ''alice''),
                            (''summary'', PNone)]\<rparr>,
        \<lparr>req_method = ''/packages/dispatcher/edit_package/newpkg'', req_auth = True,
         req_params = Some [(''collections'', PList [PStr ''devel''])]\<rparr>]
   \<and> length (sent (snd (add_edit_package empty_server (\<lambda>xs. concat xs) (\<lambda>v. ''?'')
                ''newpkg'' (Some ''alice'') None (Some 0) None None None
                \<lparr>sent = [], world = 0, lists = (\<lambda>a. [''devel''])\<rparr>))) = 3"
  by (simp add: add_edit_package_def get_package_info_def package_info_data_def
        send_request_def empty_server_def status_falsy_def getitem_def given_def
        create_step_def ensure_devel_def edit_step_def pyopt_def
        edit_package_data_def set_if_def)

text \<open>
  C9, as the code has it: \<^verbatim>\<open>add_edit_package\<close> changes no list object but the caller's
  branches list, and that one only on the creation path: when the lookup raises an
  \<^verbatim>\<open>AppError\<close>, an owner was supplied and the list does not hold \<^verbatim>\<open>devel\<close>, the caller's
  list is extended in place by \<^verbatim>\<open>devel\<close>; in every other case it holds what it held
  before the call.
\<close>

theorem add_edit_package_branches_store:
  "lists (snd (add_edit_package send dumps str_of pkg owner description branches cc_list
                 comaintainers groups s)) =
     (case branches of
        None \<Rightarrow> lists s
      | Some a \<Rightarrow>
          if lookup_fails send pkg s \<and> given owner \<and> ''devel'' \<notin> set (lists s a)
          then (lists s)(a := lists s a @ [''devel''])
          else lists s)"
proof (cases "lookup_fails send pkg s")
  case False
  then show ?thesis
    by (simp add: add_edit_package_lookup_ok edit_step_lists get_package_info_lists
          split: sum.splits option.splits)
next
  case True
  let ?s1 = "snd (get_package_info send pkg None s)"
  let ?c = "create_step send str_of pkg owner description branches ?s1"
  have "lists (snd (add_edit_package send dumps str_of pkg owner description branches cc_list
                 comaintainers groups s)) = lists (snd ?c)"
    by (cases ?c)
       (simp add: add_edit_package_lookup_fails [OF True] edit_step_lists split: sum.splits)
  with True show ?thesis
    by (simp add: create_step_lists ensure_devel_lists get_package_info_lists
          split: option.splits)
qed

text \<open>A creation with the list \<^verbatim>\<open>['F-10']\<close>, and a call without owner.\<close>

theorem add_edit_package_branches_store_witness:
  "lookup_fails empty_server ''newpkg'' \<lparr>sent = [], world = 0, lists = (\<lambda>a. [''F-10''])\<rparr>
   \<and> given (Some ''alice'') \<and> ''devel'' \<notin> set [''F-10'']
   \<and> lists (snd (add_edit_package empty_server (\<lambda>xs. concat xs) (\<lambda>v. ''?'') ''newpkg''
                   (Some ''alice'') None (Some 0) None None None
                   \<lparr>sent = [], world = 0, lists = (\<lambda>a. [''F-10''])\<rparr>))
       = (\<lambda>a. [''F-10''])(0 := [''F-10'', ''devel''])
   \<and> lists (snd (add_edit_package empty_server (\<lambda>xs. concat xs) (\<lambda>v. ''?'') ''newpkg''
                   None None (Some 0) None None None
                   \<lparr>sent = [], world = 0, lists = (\<lambda>a. [''F-10''])\<rparr>))
       = (\<lambda>a. [''F-10''])"
  using add_edit_package_branches_store
          [of empty_server "\<lambda>xs. concat xs" "\<lambda>v. ''?''" "''newpkg''" "Some ''alice''" None
              "Some 0" None None None "\<lparr>sent = [], world = 0, lists = (\<lambda>a. [''F-10''])\<rparr>"]
        add_edit_package_branches_store
          [of empty_server "\<lambda>xs. concat xs" "\<lambda>v. ''?''" "''newpkg''" None None
              "Some 0" None None None "\<lparr>sent = [], world = 0, lists = (\<lambda>a. [''F-10''])\<rparr>"]
  by (simp add: lookup_fails_def get_package_info_def package_info_data_def send_request_def
        empty_server_def status_falsy_def getitem_def given_def)

text \<open>After the creation the caller's list \<^verbatim>\<open>['F-10']\<close> is \<^verbatim>\<open>['F-10', 'devel']\<close>.\<close>

theorem add_edit_package_mutates_branches_counterexample:
  "lists \<lparr>sent = [], world = 0::nat, lists = (\<lambda>a. [''F-10''])\<rparr> 0 = [''F-10'']
   \<and> lists (snd (add_edit_package empty_server (\<lambda>xs. concat xs) (\<lambda>v. ''?'') ''newpkg''
                   (Some ''alice'') None (Some 0) None None None
                   \<lparr>sent = [], world = 0, lists = (\<lambda>a. [''F-10''])\<rparr>)) 0
       = [''F-10'', ''devel'']"
  by (simp add: add_edit_package_def get_package_info_def package_info_data_def
        send_request_def empty_server_def status_falsy_def getitem_def given_def
        create_step_def ensure_devel_def edit_step_def pyopt_def
        edit_package_data_def set_if_def)

end
